theory Spec2Isabelle
  imports Main "HOL-Library.Sublist"
begin

section \<open>The Keras Tuner documentation tree of \<^verbatim>\<open>scripts/kt_api_master.py\<close>\<close>

text \<open>
  The script consists of four assignments of dictionary literals. Every dictionary has the
  keys \<^verbatim>\<open>path\<close> and \<^verbatim>\<open>title\<close> (strings), and some of the keys
  \<^verbatim>\<open>toc\<close> (a boolean), \<^verbatim>\<open>children\<close> (a list of dictionaries of the same
  shape) and \<^verbatim>\<open>generate\<close> (a list of strings). A key that a literal does not write is
  \<open>None\<close> here, a key that it writes is \<open>Some\<close> of its value, so that "the key is
  present" stays a property of the value. Lists keep the order of the literal.
\<close>

datatype page_node = PageNode
  (path: string)
  (title: string)
  (toc: "bool option")
  (children: "page_node list option")
  (generate: "string list option")

text \<open>The page group of the oracles (lines 1-41 of the script).\<close>

definition ORACLE_MASTER :: page_node where
  "ORACLE_MASTER =
    PageNode ''oracles/'' ''Oracles'' (Some True)
      (Some [
         PageNode ''base_oracle'' ''The base Oracle class'' None None
           (Some [
              ''kerastuner.Oracle'',
              ''kerastuner.Oracle.create_trial'',
              ''kerastuner.Oracle.end_trial'',
              ''kerastuner.Oracle.get_best_trials'',
              ''kerastuner.Oracle.get_state'',
              ''kerastuner.Oracle.set_state'',
              ''kerastuner.Oracle.update_trial'']),
         PageNode ''random'' ''RandomSearchOracle'' None None
           (Some [
              ''kerastuner.oracles.RandomSearch'']),
         PageNode ''bayesian'' ''BayesianOptimizationOracle'' None None
           (Some [
              ''kerastuner.oracles.BayesianOptimization'']),
         PageNode ''hyperband'' ''HyperbandOracle'' None None
           (Some [
              ''kerastuner.oracles.Hyperband''])])
      None"

text \<open>The page group of the hypermodels (lines 43-71).\<close>

definition HYPERMODEL_MASTER :: page_node where
  "HYPERMODEL_MASTER =
    PageNode ''hypermodels/'' ''HyperModels'' (Some True)
      (Some [
         PageNode ''base_hypermodel'' ''The base HyperModel class'' None None
           (Some [
              ''kerastuner.HyperModel'',
              ''kerastuner.HyperModel.build'']),
         PageNode ''hyper_resnet'' ''HyperResNet'' None None
           (Some [
              ''kerastuner.applications.HyperResNet'']),
         PageNode ''hyper_xception'' ''HyperXception'' None None
           (Some [
              ''kerastuner.applications.HyperXception''])])
      None"

text \<open>The page group of the tuners (lines 73-126).\<close>

definition TUNER_MASTER :: page_node where
  "TUNER_MASTER =
    PageNode ''tuners/'' ''Tuners'' (Some True)
      (Some [
         PageNode ''base_tuner'' ''The base Tuner class'' None None
           (Some [
              ''kerastuner.Tuner'',
              ''kerastuner.Tuner.get_best_hyperparameters'',
              ''kerastuner.Tuner.get_best_models'',
              ''kerastuner.Tuner.get_state'',
              ''kerastuner.Tuner.load_model'',
              ''kerastuner.Tuner.on_epoch_begin'',
              ''kerastuner.Tuner.on_batch_begin'',
              ''kerastuner.Tuner.on_batch_end'',
              ''kerastuner.Tuner.on_epoch_end'',
              ''kerastuner.Tuner.run_trial'',
              ''kerastuner.Tuner.save_model'',
              ''kerastuner.Tuner.search'',
              ''kerastuner.Tuner.set_state'']),
         PageNode ''random'' ''RandomSearch'' None None
           (Some [
              ''kerastuner.RandomSearch'']),
         PageNode ''bayesian'' ''BayesianOptimization'' None None
           (Some [
              ''kerastuner.BayesianOptimization'']),
         PageNode ''hyperband'' ''Hyperband'' None None
           (Some [
              ''kerastuner.Hyperband'']),
         PageNode ''sklearn'' ''Sklearn'' None None
           (Some [
              ''kerastuner.tuners.Sklearn''])])
      None"

text \<open>The root (lines 128-151): one page written in place, then the three groups above, by name.\<close>

definition KT_API_MASTER :: page_node where
  "KT_API_MASTER =
    PageNode ''keras-tuner/'' ''Keras Tuner'' (Some True)
      (Some [
         PageNode ''hyperparameters'' ''HyperParameters'' None None
           (Some [
              ''kerastuner.HyperParameters'',
              ''kerastuner.HyperParameters.Boolean'',
              ''kerastuner.HyperParameters.Choice'',
              ''kerastuner.HyperParameters.Fixed'',
              ''kerastuner.HyperParameters.Float'',
              ''kerastuner.HyperParameters.Int'',
              ''kerastuner.HyperParameters.conditional_scope'',
              ''kerastuner.HyperParameters.get'']),
         TUNER_MASTER,
         ORACLE_MASTER,
         HYPERMODEL_MASTER])
      None"

subsection \<open>Walking the tree\<close>

text \<open>
  The nodes of the tree rooted at a node, the node itself first and then the nodes of each
  child, in the order of the \<^verbatim>\<open>children\<close> list. A node without that key has no
  nodes below it.
\<close>

fun nodes :: "page_node \<Rightarrow> page_node list" where
  "nodes (PageNode p t tc ch g) =
     PageNode p t tc ch g #
       (case ch of None \<Rightarrow> [] | Some cs \<Rightarrow> concat (map nodes cs))"

text \<open>The \<^verbatim>\<open>path\<close> values of the children of a node, in order, when it has the key.\<close>

definition child_paths :: "page_node \<Rightarrow> string list option" where
  "child_paths n = map_option (map path) (children n)"


section \<open>The shape of the tree\<close>

lemmas master_defs =
  KT_API_MASTER_def TUNER_MASTER_def ORACLE_MASTER_def HYPERMODEL_MASTER_def

subsection \<open>The root and the three groups\<close>

text \<open>
  Claim C1. The root \<open>KT_API_MASTER\<close> has the path \<^verbatim>\<open>keras-tuner/\<close>, and its
  \<^verbatim>\<open>children\<close> list has exactly four entries, in this order: the page of the
  hyperparameters (a page of its own, without children), then the values \<open>TUNER_MASTER\<close>,
  \<open>ORACLE_MASTER\<close> and \<open>HYPERMODEL_MASTER\<close>.
\<close>

theorem KT_API_MASTER_root:
  "path KT_API_MASTER = ''keras-tuner/'' \<and>
   (\<exists>hp. children KT_API_MASTER =
            Some [hp, TUNER_MASTER, ORACLE_MASTER, HYPERMODEL_MASTER] \<and>
         path hp = ''hyperparameters'' \<and> title hp = ''HyperParameters'' \<and>
         children hp = None) \<and>
   child_paths KT_API_MASTER =
     Some [''hyperparameters'', ''tuners/'', ''oracles/'', ''hypermodels/'']"
  by (simp add: child_paths_def master_defs)

text \<open>
  Claim C2. The group of the tuners, \<open>TUNER_MASTER\<close>, has exactly five children, and
  their paths are, in order, \<^verbatim>\<open>base_tuner\<close>, \<^verbatim>\<open>random\<close>, \<^verbatim>\<open>bayesian\<close>,
  \<^verbatim>\<open>hyperband\<close>, \<^verbatim>\<open>sklearn\<close>.
\<close>

theorem TUNER_MASTER_child_paths:
  "map_option length (children TUNER_MASTER) = Some 5 \<and>
   child_paths TUNER_MASTER =
     Some [''base_tuner'', ''random'', ''bayesian'', ''hyperband'', ''sklearn'']"
  by (simp add: child_paths_def TUNER_MASTER_def)

text \<open>
  Claim C3. The group of the oracles, \<open>ORACLE_MASTER\<close>, has exactly four children, and
  their paths are, in order, \<^verbatim>\<open>base_oracle\<close>, \<^verbatim>\<open>random\<close>, \<^verbatim>\<open>bayesian\<close>,
  \<^verbatim>\<open>hyperband\<close>.
\<close>

theorem ORACLE_MASTER_child_paths:
  "map_option length (children ORACLE_MASTER) = Some 4 \<and>
   child_paths ORACLE_MASTER =
     Some [''base_oracle'', ''random'', ''bayesian'', ''hyperband'']"
  by (simp add: child_paths_def ORACLE_MASTER_def)

text \<open>
  Claim C9. The group of the hypermodels, \<open>HYPERMODEL_MASTER\<close>, has exactly three
  children, and their paths are, in order, \<^verbatim>\<open>base_hypermodel\<close>,
  \<^verbatim>\<open>hyper_resnet\<close>, \<^verbatim>\<open>hyper_xception\<close>.
\<close>

theorem HYPERMODEL_MASTER_child_paths:
  "map_option length (children HYPERMODEL_MASTER) = Some 3 \<and>
   child_paths HYPERMODEL_MASTER =
     Some [''base_hypermodel'', ''hyper_resnet'', ''hyper_xception'']"
  by (simp add: child_paths_def HYPERMODEL_MASTER_def)

section \<open>Invariants of every node\<close>

text \<open>
  The statements below range over \<open>set (nodes KT_API_MASTER)\<close>: the root, the page of the
  hyperparameters, the three groups and their twelve pages, seventeen nodes in all.
\<close>

lemma length_nodes_KT_API_MASTER: "length (nodes KT_API_MASTER) = 17"
  by (simp add: master_defs)

lemma groups_in_tree:
  "TUNER_MASTER \<in> set (nodes KT_API_MASTER)"
  "ORACLE_MASTER \<in> set (nodes KT_API_MASTER)"
  "HYPERMODEL_MASTER \<in> set (nodes KT_API_MASTER)"
  by (simp_all add: master_defs)

text \<open>
  Claim C4. Every node of the tree rooted at \<open>KT_API_MASTER\<close> that has no
  \<^verbatim>\<open>children\<close> key (a leaf) has the \<^verbatim>\<open>generate\<close> key, and its list is not empty.
\<close>

theorem leaf_has_generate:
  "\<forall>n \<in> set (nodes KT_API_MASTER).
     children n = None \<longrightarrow> (\<exists>g. generate n = Some g \<and> g \<noteq> [])"
  by (simp add: master_defs)

theorem leaf_has_generate_witness:
  "PageNode ''sklearn'' ''Sklearn'' None None (Some [''kerastuner.tuners.Sklearn''])
     \<in> set (nodes KT_API_MASTER) \<and>
   children (PageNode ''sklearn'' ''Sklearn'' None None
     (Some [''kerastuner.tuners.Sklearn''])) = None \<and>
   (\<exists>g. generate (PageNode ''sklearn'' ''Sklearn'' None None
          (Some [''kerastuner.tuners.Sklearn''])) = Some g \<and> g \<noteq> [])"
proof -
  let ?n = "PageNode ''sklearn'' ''Sklearn'' None None (Some [''kerastuner.tuners.Sklearn''])"
  have m: "?n \<in> set (nodes KT_API_MASTER)"
    by (simp add: master_defs)
  have l: "children ?n = None"
    by simp
  from leaf_has_generate [rule_format, OF m l] m l show ?thesis
    by simp
qed

text \<open>
  Claim C5. Every node of the tree rooted at \<open>KT_API_MASTER\<close> that has the
  \<^verbatim>\<open>children\<close> key has the \<^verbatim>\<open>toc\<close> key with the value \<^verbatim>\<open>True\<close>, and has no
  \<^verbatim>\<open>generate\<close> key.
\<close>

theorem group_has_toc_no_generate:
  "\<forall>n \<in> set (nodes KT_API_MASTER).
     children n \<noteq> None \<longrightarrow> toc n = Some True \<and> generate n = None"
  by (simp add: master_defs del: not_None_eq)

theorem group_has_toc_no_generate_witness:
  "ORACLE_MASTER \<in> set (nodes KT_API_MASTER) \<and> children ORACLE_MASTER \<noteq> None \<and>
   toc ORACLE_MASTER = Some True \<and> generate ORACLE_MASTER = None"
proof -
  have m: "ORACLE_MASTER \<in> set (nodes KT_API_MASTER)"
    by (rule groups_in_tree)
  have c: "children ORACLE_MASTER \<noteq> None"
    by (simp add: ORACLE_MASTER_def)
  from group_has_toc_no_generate [rule_format, OF m c] m c show ?thesis
    by simp
qed

text \<open>
  Claim C6. For every node of the tree rooted at \<open>KT_API_MASTER\<close>, the paths of its
  immediate children are pairwise distinct. Paths are not unique in the whole tree:
  \<^verbatim>\<open>random\<close> is the path of a child of the tuners and of a child of the oracles.
\<close>

theorem sibling_paths_distinct:
  "(\<forall>n \<in> set (nodes KT_API_MASTER).
      \<forall>cs. children n = Some cs \<longrightarrow> distinct (map path cs)) \<and>
   (\<exists>ps qs. child_paths TUNER_MASTER = Some ps \<and> child_paths ORACLE_MASTER = Some qs \<and>
      ''random'' \<in> set ps \<and> ''random'' \<in> set qs) \<and>
   \<not> distinct (map path (nodes KT_API_MASTER))"
  by (simp add: child_paths_def master_defs)

theorem sibling_paths_distinct_witness:
  "TUNER_MASTER \<in> set (nodes KT_API_MASTER) \<and>
   (\<exists>cs. children TUNER_MASTER = Some cs \<and> length cs = 5 \<and> distinct (map path cs))"
proof -
  obtain cs where c: "children TUNER_MASTER = Some cs" and l: "length cs = 5"
    by (simp add: TUNER_MASTER_def)
  from sibling_paths_distinct [THEN conjunct1, rule_format, OF groups_in_tree(1) c]
  have "distinct (map path cs)" .
  with c l groups_in_tree(1) show ?thesis
    by simp
qed

text \<open>
  Claim C7. No node of the tree rooted at \<open>KT_API_MASTER\<close> has both the
  \<^verbatim>\<open>children\<close> key and the \<^verbatim>\<open>generate\<close> key; each node has one of the two, so it
  either groups children or lists symbols.
\<close>

theorem children_generate_exclusive:
  "\<forall>n \<in> set (nodes KT_API_MASTER).
     \<not> (children n \<noteq> None \<and> generate n \<noteq> None) \<and>
     (children n \<noteq> None \<or> generate n \<noteq> None)"
  by (simp add: master_defs del: not_None_eq)

theorem children_generate_exclusive_witness:
  "HYPERMODEL_MASTER \<in> set (nodes KT_API_MASTER) \<and>
   children HYPERMODEL_MASTER \<noteq> None \<and> generate HYPERMODEL_MASTER = None"
proof -
  have c: "children HYPERMODEL_MASTER \<noteq> None"
    by (simp add: HYPERMODEL_MASTER_def)
  from children_generate_exclusive [rule_format, OF groups_in_tree(3)] c
  have "generate HYPERMODEL_MASTER = None"
    by blast
  with c groups_in_tree(3) show ?thesis
    by simp
qed

text \<open>
  Claim C10. No leaf of the tree rooted at \<open>KT_API_MASTER\<close> has the \<^verbatim>\<open>toc\<close> key:
  the nodes with that key are the four nodes with children, the root and the three groups.
  Every string of the \<^verbatim>\<open>generate\<close> list of every leaf starts with
  \<^verbatim>\<open>kerastuner.\<close> (with the dot).
\<close>

theorem leaf_no_toc_kerastuner_prefix:
  "(\<forall>n \<in> set (nodes KT_API_MASTER). children n = None \<longrightarrow>
      toc n = None \<and>
      (\<forall>g. generate n = Some g \<longrightarrow> (\<forall>s \<in> set g. prefix ''kerastuner.'' s))) \<and>
   filter (\<lambda>n. toc n \<noteq> None) (nodes KT_API_MASTER) =
     [KT_API_MASTER, TUNER_MASTER, ORACLE_MASTER, HYPERMODEL_MASTER] \<and>
   filter (\<lambda>n. children n \<noteq> None) (nodes KT_API_MASTER) =
     [KT_API_MASTER, TUNER_MASTER, ORACLE_MASTER, HYPERMODEL_MASTER]"
  by (simp add: master_defs del: not_None_eq)

theorem leaf_no_toc_kerastuner_prefix_witness:
  "PageNode ''base_hypermodel'' ''The base HyperModel class'' None None
     (Some [''kerastuner.HyperModel'', ''kerastuner.HyperModel.build''])
     \<in> set (nodes KT_API_MASTER) \<and>
   children (PageNode ''base_hypermodel'' ''The base HyperModel class'' None None
     (Some [''kerastuner.HyperModel'', ''kerastuner.HyperModel.build''])) = None \<and>
   toc (PageNode ''base_hypermodel'' ''The base HyperModel class'' None None
     (Some [''kerastuner.HyperModel'', ''kerastuner.HyperModel.build''])) = None \<and>
   prefix ''kerastuner.'' ''kerastuner.HyperModel'' \<and>
   prefix ''kerastuner.'' ''kerastuner.HyperModel.build''"
proof -
  let ?g = "[''kerastuner.HyperModel'', ''kerastuner.HyperModel.build'']"
  let ?n = "PageNode ''base_hypermodel'' ''The base HyperModel class'' None None (Some ?g)"
  have m: "?n \<in> set (nodes KT_API_MASTER)"
    by (simp add: master_defs)
  have l: "children ?n = None"
    by simp
  have g: "generate ?n = Some ?g"
    by simp
  from leaf_no_toc_kerastuner_prefix [THEN conjunct1, rule_format, OF m l]
  have "toc ?n = None" and "\<forall>s \<in> set ?g. prefix ''kerastuner.'' s"
    using g by blast+
  with m l show ?thesis
    by simp
qed

end
